theory Spec2Isabelle
  imports Main
begin

section \<open>Text operations of the Python runtime\<close>

text \<open>
  Python's \<^verbatim>\<open>str\<close> is a sequence of code points. The model uses \<^typ>\<open>string\<close> and reads
  each \<^typ>\<open>char\<close> as one code point below 256 (the Latin-1 range); on that range the
  functions below are Python's \<^verbatim>\<open>str.isspace\<close>, \<^verbatim>\<open>str.isupper\<close>, \<^verbatim>\<open>str.lower\<close>,
  \<^verbatim>\<open>str.strip\<close>, \<^verbatim>\<open>str.startswith\<close>, \<^verbatim>\<open>in\<close>, \<^verbatim>\<open>str.replace\<close> and
  \<^verbatim>\<open>str.join\<close>. Text with code points from 256 on is outside the model.
\<close>

definition isspace :: "char \<Rightarrow> bool" where
  "isspace c =
     (let n = (of_char c :: nat)
      in (9 \<le> n \<and> n \<le> 13) \<or> (28 \<le> n \<and> n \<le> 32) \<or> n = 133 \<or> n = 160)"

definition isupper :: "char \<Rightarrow> bool" where
  "isupper c =
     (let n = (of_char c :: nat)
      in (65 \<le> n \<and> n \<le> 90) \<or> (192 \<le> n \<and> n \<le> 222 \<and> n \<noteq> 215))"

definition lower_char :: "char \<Rightarrow> char" where
  "lower_char c = (if isupper c then char_of (of_char c + (32::nat)) else c)"

definition lower :: "string \<Rightarrow> string" where
  "lower s = map lower_char s"

definition strip :: "string \<Rightarrow> string" where
  "strip s = rev (dropWhile isspace (rev (dropWhile isspace s)))"

fun startswith :: "string \<Rightarrow> string \<Rightarrow> bool" where
  "startswith s [] = True"
| "startswith [] (p # ps) = False"
| "startswith (c # cs) (p # ps) = (c = p \<and> startswith cs ps)"

text \<open>\<^verbatim>\<open>sub in s\<close>: \<open>sub\<close> occurs somewhere in \<open>s\<close>.\<close>

fun contains :: "string \<Rightarrow> string \<Rightarrow> bool" where
  "contains [] sub = (sub = [])"
| "contains (c # cs) sub = (startswith (c # cs) sub \<or> contains cs sub)"

text \<open>
  \<^verbatim>\<open>s.replace(old, new)\<close>: every occurrence of \<open>old\<close>, found from the left and
  without overlap, becomes \<open>new\<close>. With an empty \<open>old\<close> Python puts \<open>new\<close> before each
  character and at the end.
\<close>

fun replace_from :: "string \<Rightarrow> string \<Rightarrow> string \<Rightarrow> string" where
  "replace_from [] old new = []"
| "replace_from (c # cs) old new =
     (if old \<noteq> [] \<and> startswith (c # cs) old
      then new @ replace_from (drop (length old) (c # cs)) old new
      else c # replace_from cs old new)"

definition replace :: "string \<Rightarrow> string \<Rightarrow> string \<Rightarrow> string" where
  "replace s old new =
     (if old = [] then new @ concat (map (\<lambda>c. c # new) s) else replace_from s old new)"

fun join :: "string \<Rightarrow> string list \<Rightarrow> string" where
  "join sep [] = []"
| "join sep [x] = x"
| "join sep (x # y # ys) = x @ sep @ join sep (y # ys)"

text \<open>\<^verbatim>\<open>str(n)\<close> for an integer, and \<^verbatim>\<open>format(n, ',')\<close> (the \<^verbatim>\<open>{n:,}\<close> of an f-string).\<close>

definition digit_char :: "nat \<Rightarrow> char" where
  "digit_char d = char_of (48 + d)"

fun str_nat :: "nat \<Rightarrow> string" where
  "str_nat n = (if n < 10 then [digit_char n] else str_nat (n div 10) @ [digit_char (n mod 10)])"

declare str_nat.simps [simp del]

definition str_int :: "int \<Rightarrow> string" where
  "str_int i = (if i < 0 then CHR ''-'' # str_nat (nat (- i)) else str_nat (nat i))"

fun commas :: "string \<Rightarrow> string" where
  "commas (a # b # c # d # r) = a # b # c # CHR '','' # commas (d # r)"
| "commas r = r"

definition format_commas :: "int \<Rightarrow> string" where
  "format_commas i =
     (if i < 0 then CHR ''-'' # rev (commas (rev (str_nat (nat (- i)))))
      else rev (commas (rev (str_nat (nat i)))))"

text \<open>Truthiness of an optional string: \<^verbatim>\<open>None\<close> and \<^verbatim>\<open>""\<close> are false.\<close>

fun truthy :: "string option \<Rightarrow> bool" where
  "truthy None = False"
| "truthy (Some s) = (s \<noteq> [])"

section \<open>Data\<close>

text \<open>
  The catalog's JSON objects are records. A key the code reads with \<^verbatim>\<open>d[k]\<close> is a
  field; a key it reads with \<^verbatim>\<open>d.get(k)\<close> or tests with \<^verbatim>\<open>k in d\<close> is an optional
  field. A list of objects of which only the name is read is the list of the names. The
  rating is a JSON number that the code only ever prints: \<open>d_vote_average\<close> is its
  rendering by \<^verbatim>\<open>str\<close>.
\<close>

record movie =
  m_id :: int
  m_title :: string
  m_release_date :: "string option"

record video =
  v_site :: string
  v_type :: string
  v_key :: string

record crew_member =
  cm_name :: string
  cm_job :: string

record credits =
  c_crew :: "crew_member list option"
  c_cast :: "string list option"

record movie_details =
  d_title :: "string option"
  d_release_date :: "string option"
  d_overview :: "string option"
  d_vote_average :: "string option"
  d_genres :: "string list option"
  d_runtime :: "int option"
  d_budget :: "int option"
  d_revenue :: "int option"
  d_credits :: "credits option"
  d_videos :: "video list option"
  d_poster_path :: "string option"

record trailer =
  t_title :: string
  t_url :: string
  t_video_id :: string

text \<open>
  The dictionary \<^verbatim>\<open>context\<close> of \<^verbatim>\<open>generate_movie_response\<close>. The fields that the
  templates print with \<^verbatim>\<open>{...}\<close> hold the printed text; budget and revenue stay
  integers, as \<^verbatim>\<open>{...:,}\<close> formats them.
\<close>

record response_context =
  ctx_title :: string
  ctx_release_date :: string
  ctx_overview :: string
  ctx_vote_average :: string
  ctx_genres :: "string list"
  ctx_runtime :: string
  ctx_budget :: int
  ctx_revenue :: int
  ctx_director :: string
  ctx_cast :: "string list"
  ctx_trailer :: string

section \<open>Services and effects\<close>

text \<open>
  The agent talks to outside services: the generative-text model, the catalog, a web
  search and the poster host. Each is a parameter of the model: a function from what the
  code sends to what it gets back, \<open>Inl e\<close> when the call raises an exception with
  message \<open>e\<close>. A streamed reply is a sequence of chunks that ends or raises.
  The web search's reply is the page as the parser reads it: the \<^verbatim>\<open>href\<close> attribute of
  each anchor, \<open>None\<close> where an anchor has none.

  Everything the code does besides returning a value is recorded, in order, in a list of
  events: a request sent to a service, a line printed on the console, a call of the
  caller's \<^verbatim>\<open>callback\<close>, and for the window a status line and an action scheduled on the
  interface thread with \<^verbatim>\<open>root.after(0, ...)\<close>. \<open>Call\<close> records on entry that one of the
  two response generators was called, and with what. The timer by which \<^verbatim>\<open>show_status\<close>
  resets the status line after five seconds is not modelled.
\<close>

datatype stream = StreamEnd | StreamChunk string stream | StreamError string

datatype request =
    GenerateContent string
  | GenerateContentStream string
  | TmdbSearch string
  | TmdbDetails int
  | WebGet string
  | PosterGet string

datatype call =
    GenerateMovieResponse movie_details "trailer option" bool bool
  | GenerateGeneralResponse string bool bool

datatype ui_action =
    EnableSearchButton
  | UpdateUiForMovie movie_details "trailer option" "string option"
  | UpdateUiForGeneralQuery string

datatype event =
    Request request
  | Print string
  | Callback string
  | Call call
  | Status string
  | Schedule ui_action

record services =
  generate_content :: "string \<Rightarrow> string + string"
  generate_content_stream :: "string \<Rightarrow> stream"
  tmdb_search :: "string \<Rightarrow> string + movie list"
  tmdb_details :: "int \<Rightarrow> string + movie_details"
  web_get :: "string \<Rightarrow> string + string option list"
  poster_get :: "string \<Rightarrow> string + string"

section \<open>The agent: \<^verbatim>\<open>MovieAgent\<close> of \<^verbatim>\<open>movie_agent.py\<close>\<close>

subsection \<open>\<^verbatim>\<open>process_user_query\<close>\<close>

definition classification_prompt :: "string \<Rightarrow> string" where
  \<open>classification_prompt query =
     ''\<newline>        Determine if the following query is asking about a specific movie or is a general question.\<newline>\<newline>        Query: "''
     @ query @
     ''"\<newline>\<newline>        If it's about a specific movie, respond with:\<newline>        movie: [extracted movie title]\<newline>\<newline>        If it's a general question or request, respond with:\<newline>        general: [original query]\<newline>\<newline>        Be very concise and only return one of the above formats.\<newline>        ''\<close>

text \<open>
  The reply is stripped, then lowercased whole, before it is parsed. Every exception of
  the \<^verbatim>\<open>try\<close> block is caught, so the function always returns a pair.
\<close>

definition process_user_query :: "services \<Rightarrow> string \<Rightarrow> (string \<times> string) \<times> event list" where
  "process_user_query sv query =
     (case generate_content sv (classification_prompt query) of
        Inr text \<Rightarrow>
          (let result = lower (strip text)
           in if startswith result ''movie:''
              then (''movie'', strip (replace result ''movie:'' ''''))
              else (''general'', query),
           [Request (GenerateContent (classification_prompt query))])
      | Inl e \<Rightarrow>
          ((''movie'', query),
           [Request (GenerateContent (classification_prompt query)),
            Print (''Error classifying query: '' @ e)]))"

subsection \<open>\<^verbatim>\<open>search_movie\<close> and \<^verbatim>\<open>get_movie_details\<close>\<close>

text \<open>
  \<open>tmdb_search sv query\<close> is the outcome of the GET on \<^verbatim>\<open>/search/movie\<close> with that
  query: \<open>Inl e\<close> for a \<^verbatim>\<open>RequestException\<close> (transport failure, or an HTTP error status
  through \<^verbatim>\<open>raise_for_status\<close>), \<open>Inr results\<close> for the \<^verbatim>\<open>results\<close> array of the body.
  \<open>tmdb_details sv movie_id\<close> is the same for \<^verbatim>\<open>/movie/{movie_id}\<close>. Python's \<^verbatim>\<open>None\<close> is \<open>None\<close>.
\<close>

definition search_movie :: "services \<Rightarrow> string \<Rightarrow> movie option \<times> event list" where
  "search_movie sv query =
     (case tmdb_search sv query of
        Inr results \<Rightarrow>
          (if results \<noteq> [] \<and> length results > 0 then Some (hd results) else None,
           [Request (TmdbSearch query)])
      | Inl e \<Rightarrow>
          (None, [Request (TmdbSearch query), Print (''Error searching for movie: '' @ e)]))"

definition get_movie_details :: "services \<Rightarrow> int \<Rightarrow> movie_details option \<times> event list" where
  "get_movie_details sv movie_id =
     (case tmdb_details sv movie_id of
        Inr details \<Rightarrow> (Some details, [Request (TmdbDetails movie_id)])
      | Inl e \<Rightarrow>
          (None, [Request (TmdbDetails movie_id), Print (''Error getting movie details: '' @ e)]))"

subsection \<open>\<^verbatim>\<open>find_trailer\<close>\<close>

text \<open>The loop over \<^verbatim>\<open>movie_data["videos"]["results"]\<close>: it returns at the first match.\<close>

fun tmdb_trailer :: "string \<Rightarrow> video list \<Rightarrow> trailer option" where
  "tmdb_trailer movie_title [] = None"
| "tmdb_trailer movie_title (video # videos) =
     (if v_site video = ''YouTube'' \<and> v_type video = ''Trailer''
      then Some \<lparr>t_title = movie_title @ '' Official Trailer'',
                 t_url = ''https://www.youtube.com/watch?v='' @ v_key video,
                 t_video_id = v_key video\<rparr>
      else tmdb_trailer movie_title videos)"

text \<open>
  \<^verbatim>\<open>re.search(r'youtube\.com/watch\?v=([^&]+)', href)\<close>, giving \<^verbatim>\<open>match.group(1)\<close>: the
  leftmost position where the literal text stands and at least one character other
  than \<^verbatim>\<open>&\<close> follows; the group is the longest run of such characters.
\<close>

fun re_search_watch :: "string \<Rightarrow> string option" where
  "re_search_watch [] = None"
| "re_search_watch (c # cs) =
     (let video_id = takeWhile (\<lambda>x. x \<noteq> CHR ''&'') (drop (length ''youtube.com/watch?v='') (c # cs))
      in if startswith (c # cs) ''youtube.com/watch?v='' \<and> video_id \<noteq> []
         then Some video_id
         else re_search_watch cs)"

text \<open>\<^verbatim>\<open>link.get('href', '')\<close>.\<close>

definition href_of :: "string option \<Rightarrow> string" where
  "href_of link = (case link of Some h \<Rightarrow> h | None \<Rightarrow> '''')"

text \<open>The loop over the anchors of the result page, building \<^verbatim>\<open>youtube_links\<close>.\<close>

fun youtube_links :: "string \<Rightarrow> string option list \<Rightarrow> trailer list" where
  "youtube_links movie_title [] = []"
| "youtube_links movie_title (link # links) =
     (let href = href_of link
      in if contains href ''youtube.com/watch''
         then (case re_search_watch href of
                 Some video_id \<Rightarrow>
                   \<lparr>t_title = movie_title @ '' Trailer'',
                    t_url = ''https://www.youtube.com/watch?v='' @ video_id,
                    t_video_id = video_id\<rparr> # youtube_links movie_title links
               | None \<Rightarrow> youtube_links movie_title links)
         else youtube_links movie_title links)"

definition find_trailer ::
  "services \<Rightarrow> string \<Rightarrow> string option \<Rightarrow> movie_details option \<Rightarrow> trailer option \<times> event list" where
  "find_trailer sv movie_title year movie_data =
     (case (case movie_data of
              None \<Rightarrow> None
            | Some md \<Rightarrow>
                (case d_videos md of
                   None \<Rightarrow> None
                 | Some results \<Rightarrow> if results \<noteq> [] then tmdb_trailer movie_title results else None)) of
        Some found \<Rightarrow> (Some found, [])
      | None \<Rightarrow>
          (let search_query = movie_title @ '' official trailer'';
               search_query = (if truthy year then search_query @ '' '' @ the year else search_query);
               search_url = ''https://www.google.com/search?q='' @ search_query @ ''+site:youtube.com''
           in case web_get sv search_url of
                Inr links \<Rightarrow>
                  (case youtube_links movie_title links of
                     first # _ \<Rightarrow> Some first
                   | [] \<Rightarrow> None,
                   [Request (WebGet search_url)])
              | Inl e \<Rightarrow>
                  (None, [Request (WebGet search_url), Print (''Error finding trailer: '' @ e)])))"

subsection \<open>\<^verbatim>\<open>get_poster_image\<close>\<close>

definition get_poster_image :: "services \<Rightarrow> string \<Rightarrow> string option \<times> event list" where
  "get_poster_image sv poster_path =
     (if poster_path = [] then (None, [])
      else (let poster_url = ''https://image.tmdb.org/t/p/w500'' @ poster_path
            in case poster_get sv poster_url of
                 Inr img \<Rightarrow> (Some img, [Request (PosterGet poster_url)])
               | Inl e \<Rightarrow>
                   (None, [Request (PosterGet poster_url), Print (''Error fetching poster: '' @ e)])))"

subsection \<open>\<^verbatim>\<open>generate_movie_response\<close> and \<^verbatim>\<open>generate_general_response\<close>\<close>

definition get_director :: "movie_details \<Rightarrow> string" where
  "get_director movie_data =
     (let crew = (case d_credits movie_data of
                    None \<Rightarrow> []
                  | Some cr \<Rightarrow> (case c_crew cr of None \<Rightarrow> [] | Some members \<Rightarrow> members));
          directors = map cm_name (filter (\<lambda>member. cm_job member = ''Director'') crew)
      in if directors \<noteq> [] then hd directors else ''Unknown'')"

definition get_cast :: "movie_details \<Rightarrow> string list" where
  "get_cast movie_data =
     (case d_credits movie_data of
        None \<Rightarrow> []
      | Some cr \<Rightarrow> (case c_cast cr of None \<Rightarrow> [] | Some members \<Rightarrow> members))"

definition make_context :: "movie_details \<Rightarrow> trailer option \<Rightarrow> response_context" where
  "make_context movie_data trailer_info =
     \<lparr>ctx_title = (case d_title movie_data of Some t \<Rightarrow> t | None \<Rightarrow> ''Unknown''),
      ctx_release_date = (case d_release_date movie_data of Some d \<Rightarrow> d | None \<Rightarrow> ''Unknown''),
      ctx_overview = (case d_overview movie_data of Some v \<Rightarrow> v | None \<Rightarrow> ''No overview available''),
      ctx_vote_average = (case d_vote_average movie_data of Some v \<Rightarrow> v | None \<Rightarrow> ''N/A''),
      ctx_genres = (case d_genres movie_data of Some gs \<Rightarrow> gs | None \<Rightarrow> []),
      ctx_runtime = (case d_runtime movie_data of Some n \<Rightarrow> str_int n | None \<Rightarrow> ''Unknown''),
      ctx_budget = (case d_budget movie_data of Some n \<Rightarrow> n | None \<Rightarrow> 0),
      ctx_revenue = (case d_revenue movie_data of Some n \<Rightarrow> n | None \<Rightarrow> 0),
      ctx_director = get_director movie_data,
      ctx_cast = get_cast movie_data,
      ctx_trailer = (case trailer_info of Some t \<Rightarrow> t_url t | None \<Rightarrow> ''Trailer not available'')\<rparr>"

definition movie_prompt :: "response_context \<Rightarrow> string" where
  \<open>movie_prompt context =
     ''\<newline>        Based on the following movie information, create a comprehensive and engaging summary:\<newline>\<newline>        Title: ''
     @ ctx_title context
     @ ''\<newline>        Release Date: ''
     @ ctx_release_date context
     @ ''\<newline>        Runtime: ''
     @ ctx_runtime context
     @ '' minutes\<newline>        Genres: ''
     @ join '', '' (ctx_genres context)
     @ ''\<newline>        Rating: ''
     @ ctx_vote_average context
     @ ''/10\<newline>        Director: ''
     @ ctx_director context
     @ ''\<newline>        Main Cast: ''
     @ join '', '' (take 5 (ctx_cast context))
     @ ''\<newline>\<newline>        Overview: ''
     @ ctx_overview context
     @ ''\<newline>\<newline>        Budget: $''
     @ format_commas (ctx_budget context)
     @ ''\<newline>        Revenue: $''
     @ format_commas (ctx_revenue context)
     @ ''\<newline>\<newline>        Trailer: ''
     @ ctx_trailer context
     @ ''\<newline>\<newline>        Provide insights about the movie's reception, significance, and interesting facts if applicable.\<newline>        Format the response in a clear, professional way for someone interested in learning about this movie.\<newline>        DO NOT use markdown formatting. Use plain text formatting with clear section divisions.\<newline>        ''\<close>

definition create_fallback_response :: "response_context \<Rightarrow> string" where
  \<open>create_fallback_response context =
     ''\<newline>        ''
     @ ctx_title context
     @ '' (''
     @ take 4 (ctx_release_date context)
     @ '')\<newline>\<newline>        Rating: ''
     @ ctx_vote_average context
     @ ''/10  \<newline>        Runtime: ''
     @ ctx_runtime context
     @ '' minutes  \<newline>        Genres: ''
     @ join '', '' (ctx_genres context)
     @ ''\<newline>\<newline>        Overview:\<newline>        ''
     @ ctx_overview context
     @ ''\<newline>\<newline>        Cast & Crew:\<newline>        Director: ''
     @ ctx_director context
     @ ''  \<newline>        Starring: ''
     @ join '', '' (take 5 (ctx_cast context))
     @ ''\<newline>\<newline>        Watch Trailer:\<newline>        ''
     @ ctx_trailer context
     @ ''\<newline>\<newline>        Budget: $''
     @ format_commas (ctx_budget context)
     @ ''  \<newline>        Box Office: $''
     @ format_commas (ctx_revenue context)
     @ ''\<newline>        ''\<close>

definition general_prompt :: "string \<Rightarrow> string" where
  \<open>general_prompt query =
     ''\<newline>        The user has asked: "''
     @ query
     @ ''"\<newline>\<newline>        Please provide a helpful, informative response. If this is a question about movies in general\<newline>        (not about a specific film), provide relevant information about the topic.\<newline>\<newline>        If you're not sure what the user is asking for, try to interpret their query in the context\<newline>        of movies, cinema, or entertainment.\<newline>\<newline>        Format your response in plain text with clear section divisions. DO NOT use markdown formatting.\<newline>        ''\<close>

definition general_fallback :: "string \<Rightarrow> string" where
  \<open>general_fallback query =
     ''I'm sorry, I couldn't process your query: '' @ [CHR 0x27]
     @ query
     @ [CHR 0x27] @ ''. Please try asking in a different way.''\<close>

text \<open>
  The streaming loop: each chunk's text is added to \<^verbatim>\<open>response_text\<close> and passed to the
  callback, in the order of arrival. An exception ends the loop; the callbacks already
  made stay made.
\<close>

fun consume_stream :: "stream \<Rightarrow> string \<Rightarrow> (string + string) \<times> event list" where
  "consume_stream StreamEnd response_text = (Inr response_text, [])"
| "consume_stream (StreamError e) response_text = (Inl e, [])"
| "consume_stream (StreamChunk piece rest) response_text =
     (case consume_stream rest (response_text @ piece) of
        (r, evs) \<Rightarrow> (r, Callback piece # evs))"

text \<open>
  The body of the \<^verbatim>\<open>try\<close> block, which is the same text in both generators. \<open>callback\<close>
  tells whether the caller passed a callback.
\<close>

definition try_generate :: "services \<Rightarrow> string \<Rightarrow> bool \<Rightarrow> bool \<Rightarrow> (string + string) \<times> event list" where
  "try_generate sv prompt streaming callback =
     (if streaming \<and> callback
      then (case consume_stream (generate_content_stream sv prompt) '''' of
              (r, evs) \<Rightarrow> (r, Request (GenerateContentStream prompt) # evs))
      else (generate_content sv prompt, [Request (GenerateContent prompt)]))"

definition generate_movie_response ::
  "services \<Rightarrow> movie_details \<Rightarrow> trailer option \<Rightarrow> bool \<Rightarrow> bool \<Rightarrow> string \<times> event list" where
  "generate_movie_response sv movie_data trailer_info streaming callback =
     (let context = make_context movie_data trailer_info;
          prompt = movie_prompt context
      in case try_generate sv prompt streaming callback of
           (Inr response_text, evs) \<Rightarrow>
             (response_text,
              Call (GenerateMovieResponse movie_data trailer_info streaming callback) # evs)
         | (Inl e, evs) \<Rightarrow>
             (let fallback = create_fallback_response context
              in (fallback,
                  Call (GenerateMovieResponse movie_data trailer_info streaming callback) # evs
                  @ [Print (''Error generating response with Gemini: '' @ e)]
                  @ (if callback then [Callback fallback] else []))))"

definition generate_general_response ::
  "services \<Rightarrow> string \<Rightarrow> bool \<Rightarrow> bool \<Rightarrow> string \<times> event list" where
  "generate_general_response sv query streaming callback =
     (let prompt = general_prompt query
      in case try_generate sv prompt streaming callback of
           (Inr response_text, evs) \<Rightarrow>
             (response_text, Call (GenerateGeneralResponse query streaming callback) # evs)
         | (Inl e, evs) \<Rightarrow>
             (let fallback = general_fallback query
              in (fallback,
                  Call (GenerateGeneralResponse query streaming callback) # evs
                  @ [Print (''Error generating general response with Gemini: '' @ e)]
                  @ (if callback then [Callback fallback] else []))))"

section \<open>The orchestrator: \<^verbatim>\<open>MovieAgentGUI\<close> of \<^verbatim>\<open>movie_agent_gui.py\<close>\<close>

text \<open>
  \<^verbatim>\<open>_handle_query\<close> is the flow from a query to an answer; \<^verbatim>\<open>_search_movie\<close>,
  \<^verbatim>\<open>_handle_movie_not_found\<close> and \<^verbatim>\<open>_answer_general_query\<close> are its branches (Isabelle
  names cannot start with an underscore: they are \<open>gui_handle_query\<close> and so on). The
  four attributes the flow assigns are the record \<open>gui\<close>. The callback it passes to the
  generators schedules \<^verbatim>\<open>_append_text(text)\<close> on the interface thread; the event
  \<open>Callback text\<close> stands for that. \<^verbatim>\<open>movie_details['title']\<close> raises \<^verbatim>\<open>KeyError\<close> when
  the key is missing: the outcome \<open>Raised\<close>.
\<close>

record gui =
  self_trailer_info :: "trailer option"
  self_current_movie :: "movie_details option"
  self_last_query_type :: "string option"
  self_last_query :: "string option"

datatype outcome = Returned | Raised string

definition gui_answer_general_query :: "services \<Rightarrow> string \<Rightarrow> event list" where
  "gui_answer_general_query sv query =
     [Status (''Answering: '' @ query), Schedule (UpdateUiForGeneralQuery query)]
     @ snd (generate_general_response sv query True True)"

definition gui_handle_movie_not_found :: "services \<Rightarrow> string \<Rightarrow> event list" where
  \<open>gui_handle_movie_not_found sv query =
     Status (''Treating '' @ [CHR 0x27] @ query @ [CHR 0x27] @ '' as a general question...'')
     # gui_answer_general_query sv query\<close>

definition gui_search_movie :: "services \<Rightarrow> gui \<Rightarrow> string \<Rightarrow> outcome \<times> gui \<times> event list" where
  "gui_search_movie sv self query =
     (case search_movie sv query of
        (None, evs1) \<Rightarrow>
          (Returned, self,
           [Status (''Searching for movie: '' @ query)] @ evs1
           @ [Status (''Movie not found: '' @ query)]
           @ gui_handle_movie_not_found sv query)
      | (Some movie, evs1) \<Rightarrow>
          (case get_movie_details sv (m_id movie) of
             (None, evs2) \<Rightarrow>
               (Returned, self,
                [Status (''Searching for movie: '' @ query)] @ evs1
                @ [Status (''Found: '' @ m_title movie @ '' - Getting details...'')] @ evs2
                @ [Status (''Error fetching details for '' @ m_title movie),
                   Schedule EnableSearchButton])
           | (Some movie_details, evs2) \<Rightarrow>
               (let release_year = (if truthy (m_release_date movie)
                                    then Some (take 4 (the (m_release_date movie))) else None)
                in case find_trailer sv (m_title movie) release_year (Some movie_details) of
                     (trailer, evs3) \<Rightarrow>
                       (case (if truthy (d_poster_path movie_details)
                              then get_poster_image sv (the (d_poster_path movie_details))
                              else (None, [])) of
                          (poster_image, evs4) \<Rightarrow>
                            (let self = self\<lparr>self_current_movie := Some movie_details,
                                             self_trailer_info := trailer\<rparr>;
                                 evs = [Status (''Searching for movie: '' @ query)] @ evs1
                                   @ [Status (''Found: '' @ m_title movie @ '' - Getting details...'')]
                                   @ evs2 @ evs3 @ evs4
                                   @ [Schedule (UpdateUiForMovie movie_details trailer poster_image)]
                             in case d_title movie_details of
                                  None \<Rightarrow> (Raised ''KeyError: title'', self, evs)
                                | Some title \<Rightarrow>
                                    (Returned, self,
                                     evs @ [Status (''Generating information about '' @ title @ ''...'')]
                                     @ snd (generate_movie_response sv movie_details trailer True True)))))))"

definition gui_handle_query :: "services \<Rightarrow> gui \<Rightarrow> string \<Rightarrow> outcome \<times> gui \<times> event list" where
  "gui_handle_query sv self query =
     (case process_user_query sv query of
        ((query_type, refined_query), evs0) \<Rightarrow>
          (let self = self\<lparr>self_last_query_type := Some query_type, self_last_query := Some query\<rparr>
           in if query_type = ''movie''
              then (case gui_search_movie sv self refined_query of
                      (out, self, evs) \<Rightarrow> (out, self, evs0 @ evs))
              else (Returned, self, evs0 @ gui_answer_general_query sv query)))"

text \<open>The attributes as \<^verbatim>\<open>__init__\<close> sets them, and the events of handling one query.\<close>

definition initial_gui :: gui where
  "initial_gui =
     \<lparr>self_trailer_info = None, self_current_movie = None,
      self_last_query_type = None, self_last_query = None\<rparr>"

abbreviation handle_events :: "services \<Rightarrow> gui \<Rightarrow> string \<Rightarrow> event list" where
  "handle_events sv self query \<equiv> snd (snd (gui_handle_query sv self query))"

section \<open>Reading a list of events\<close>

fun calls_of :: "event list \<Rightarrow> call list" where
  "calls_of [] = []"
| "calls_of (Call c # evs) = c # calls_of evs"
| "calls_of (ev # evs) = calls_of evs"

fun callbacks_of :: "event list \<Rightarrow> string list" where
  "callbacks_of [] = []"
| "callbacks_of (Callback piece # evs) = piece # callbacks_of evs"
| "callbacks_of (ev # evs) = callbacks_of evs"

fun requests_of :: "event list \<Rightarrow> request list" where
  "requests_of [] = []"
| "requests_of (Request r # evs) = r # requests_of evs"
| "requests_of (ev # evs) = requests_of evs"

fun statuses_of :: "event list \<Rightarrow> string list" where
  "statuses_of [] = []"
| "statuses_of (Status message # evs) = message # statuses_of evs"
| "statuses_of (ev # evs) = statuses_of evs"

section \<open>The specification's vocabulary\<close>

text \<open>
  The definitions of this section follow the wording of the specification, not the
  code; the theorems relate the code to them.

  The catalog's video list of the details (empty when there are no details or no list),
  and the entries the metadata tier looks for: source YouTube, category Trailer.
\<close>

definition raw_video_list :: "movie_details option \<Rightarrow> video list" where
  "raw_video_list movie_data =
     (case movie_data of
        None \<Rightarrow> []
      | Some md \<Rightarrow> (case d_videos md of None \<Rightarrow> [] | Some results \<Rightarrow> results))"

definition is_youtube_trailer :: "video \<Rightarrow> bool" where
  "is_youtube_trailer v = (v_site v = ''YouTube'' \<and> v_type v = ''Trailer'')"

text \<open>
  The fallback tier's search: \<^verbatim>\<open>"<title> official trailer [<year>]"\<close>, scoped to the
  video platform's domain. A year that is the empty string counts as absent.
\<close>

definition fallback_search_url :: "string \<Rightarrow> string option \<Rightarrow> string" where
  "fallback_search_url movie_title year =
     ''https://www.google.com/search?q='' @ movie_title @ '' official trailer''
     @ (case year of None \<Rightarrow> [] | Some y \<Rightarrow> if y = [] then [] else '' '' @ y)
     @ ''+site:youtube.com''"

text \<open>
  A hyperlink matches the watch-URL pattern \<^verbatim>\<open>youtube.com/watch?v=<id>\<close> when that text
  occurs in it with an id of at least one character, none of them \<^verbatim>\<open>&\<close>.
\<close>

definition watch_url_match :: "string \<Rightarrow> bool" where
  "watch_url_match href =
     (\<exists>pre vid post. href = pre @ ''youtube.com/watch?v='' @ vid @ post \<and>
        vid \<noteq> [] \<and> CHR ''&'' \<notin> set vid)"

text \<open>
  What a streamed reply delivers: its fragments in order of arrival, and the exception
  that ends it, if one does. The generative-text service fails for a call when the
  request of the mode the call uses raises: the stream when \<^verbatim>\<open>streaming and callback\<close>
  holds, the single-shot request otherwise.
\<close>

fun stream_chunks :: "stream \<Rightarrow> string list" where
  "stream_chunks StreamEnd = []"
| "stream_chunks (StreamError e) = []"
| "stream_chunks (StreamChunk piece rest) = piece # stream_chunks rest"

fun stream_error :: "stream \<Rightarrow> string option" where
  "stream_error StreamEnd = None"
| "stream_error (StreamError e) = Some e"
| "stream_error (StreamChunk piece rest) = stream_error rest"

definition service_fails :: "services \<Rightarrow> string \<Rightarrow> bool \<Rightarrow> bool \<Rightarrow> bool" where
  "service_fails sv prompt streaming callback =
     (if streaming \<and> callback
      then stream_error (generate_content_stream sv prompt) \<noteq> None
      else (case generate_content sv prompt of Inl e \<Rightarrow> True | Inr text \<Rightarrow> False))"

section \<open>Scenarios\<close>

text \<open>Concrete services and inputs, on which the theorems below are instantiated.\<close>

definition offline :: services where
  "offline =
     \<lparr>generate_content = (\<lambda>prompt. Inl ''unreachable''),
      generate_content_stream = (\<lambda>prompt. StreamError ''unreachable''),
      tmdb_search = (\<lambda>query. Inl ''unreachable''),
      tmdb_details = (\<lambda>movie_id. Inl ''unreachable''),
      web_get = (\<lambda>url. Inl ''unreachable''),
      poster_get = (\<lambda>url. Inl ''unreachable'')\<rparr>"

definition grossing_query :: string where
  "grossing_query = ''what is the highest grossing film of all time?''"

definition grossing_services :: services where
  "grossing_services =
     offline\<lparr>generate_content := (\<lambda>prompt. Inr ''General: What is the highest-grossing film?'')\<rparr>"

definition spongebob_query :: string where
  "spongebob_query = ''the spongebob movie: sponge out of water''"

definition spongebob_services :: services where
  "spongebob_services =
     offline\<lparr>generate_content :=
       (\<lambda>prompt. Inr ''movie: The SpongeBob Movie: Sponge Out of Water'')\<rparr>"

definition inception_details :: movie_details where
  "inception_details =
     \<lparr>d_title = Some ''Inception'',
      d_release_date = Some ''2010-07-15'',
      d_overview = Some ''A thief steals secrets through dreams.'',
      d_vote_average = Some ''8.4'',
      d_genres = Some [''Action'', ''Science Fiction''],
      d_runtime = Some 148,
      d_budget = Some 160000000,
      d_revenue = Some 839030630,
      d_credits = Some \<lparr>c_crew = Some [\<lparr>cm_name = ''Emma Thomas'', cm_job = ''Producer''\<rparr>,
                                        \<lparr>cm_name = ''Christopher Nolan'', cm_job = ''Director''\<rparr>],
                        c_cast = Some [''Leonardo DiCaprio'', ''Joseph Gordon-Levitt'', ''Ken Watanabe'',
                                       ''Tom Hardy'', ''Elliot Page'', ''Cillian Murphy'']\<rparr>,
      d_videos = Some [\<lparr>v_site = ''YouTube'', v_type = ''Featurette'', v_key = ''ginQNMiRu2w''\<rparr>,
                       \<lparr>v_site = ''Vimeo'', v_type = ''Trailer'', v_key = ''14457614''\<rparr>,
                       \<lparr>v_site = ''YouTube'', v_type = ''Trailer'', v_key = ''YoHD9XEInc0''\<rparr>,
                       \<lparr>v_site = ''YouTube'', v_type = ''Trailer'', v_key = ''8hP9D6kZseM''\<rparr>],
      d_poster_path = Some ''/inception.jpg''\<rparr>"

definition result_page_services :: services where
  "result_page_services =
     offline\<lparr>web_get := (\<lambda>url.
       Inr [Some ''/search?q=inception+trailer'',
            None,
            Some ''https://www.youtube.com/watch?v=&list=PL1'',
            Some ''https://www.youtube.com/watch?v=YoHD9XEInc0&t=5'',
            Some ''https://www.youtube.com/watch?v=8hP9D6kZseM''])\<rparr>"

definition interrupted_services :: services where
  "interrupted_services =
     offline\<lparr>generate_content_stream := (\<lambda>prompt. StreamChunk ''Incep'' (StreamError ''reset''))\<rparr>"

definition streaming_services :: services where
  "streaming_services =
     offline\<lparr>generate_content := (\<lambda>prompt. Inr ''Inception is a 2010 film.''),
             generate_content_stream := (\<lambda>prompt.
               StreamChunk ''Inception '' (StreamChunk ''is a 2010 '' (StreamChunk ''film.'' StreamEnd)))\<rparr>"

definition unlisted_services :: services where
  "unlisted_services =
     offline\<lparr>generate_content := (\<lambda>prompt. Inr ''movie: Inception''),
             tmdb_search := (\<lambda>query. Inr [])\<rparr>"

definition nonexistent_query :: string where
  "nonexistent_query = ''zzzqqqnonexistentfilm123''"

definition nonexistent_services :: services where
  "nonexistent_services =
     offline\<lparr>generate_content := (\<lambda>prompt. Inr ''Movie: Zzzqqqnonexistentfilm123''),
             tmdb_search := (\<lambda>query. Inr [])\<rparr>"

definition inception_summary :: movie where
  "inception_summary =
     \<lparr>m_id = 27205, m_title = ''Inception'', m_release_date = Some ''2010-07-15''\<rparr>"

definition no_details_services :: services where
  "no_details_services =
     offline\<lparr>generate_content := (\<lambda>prompt. Inr ''movie: Inception''),
             tmdb_search := (\<lambda>query. Inr [inception_summary])\<rparr>"

section \<open>Properties\<close>

lemmas text_eval =
  isspace_def isupper_def lower_char_def lower_def strip_def replace_def
  char_of_def bit_Suc_0_iff digit_char_def str_int_def format_commas_def

subsection \<open>Text\<close>

lemma startswith_append: "startswith (p @ r) p"
  by (induction p) auto

lemma startswith_drop: "startswith s p \<Longrightarrow> s = p @ drop (length p) s"
  by (induction s p rule: startswith.induct) auto

lemma startswith_iff: "startswith s p \<longleftrightarrow> (\<exists>r. s = p @ r)"
  using startswith_append startswith_drop by metis

lemma contains_iff: "contains s sub \<longleftrightarrow> (\<exists>pre post. s = pre @ sub @ post)"
proof (induction s)
  case Nil
  then show ?case by auto
next
  case (Cons c cs)
  show ?case
  proof
    assume "contains (c # cs) sub"
    then consider "startswith (c # cs) sub" | "contains cs sub" by auto
    then show "\<exists>pre post. c # cs = pre @ sub @ post"
    proof cases
      case 1
      then obtain r where "c # cs = sub @ r" using startswith_iff by blast
      then have "c # cs = [] @ sub @ r" by simp
      then show ?thesis by blast
    next
      case 2
      then obtain pre post where "cs = pre @ sub @ post" using Cons.IH by blast
      then have "c # cs = (c # pre) @ sub @ post" by simp
      then show ?thesis by blast
    qed
  next
    assume "\<exists>pre post. c # cs = pre @ sub @ post"
    then obtain pre post where eq: "c # cs = pre @ sub @ post" by blast
    show "contains (c # cs) sub"
    proof (cases pre)
      case Nil
      with eq have "c # cs = sub @ post" by simp
      then have "startswith (c # cs) sub" using startswith_append by metis
      then show ?thesis by simp
    next
      case (Cons a pre')
      with eq have "cs = pre' @ sub @ post" by simp
      then have "contains cs sub" using Cons.IH by blast
      then show ?thesis by simp
    qed
  qed
qed

lemma contains_mid: "contains (pre @ sub @ post) sub"
  unfolding contains_iff by blast

lemma replace_from_absent: "\<not> contains s old \<Longrightarrow> replace_from s old new = s"
  by (induction s) auto

lemma replace_from_marker_prefix:
  assumes "old \<noteq> []" and "\<not> contains rest old"
  shows "replace_from (old @ rest) old [] = rest"
proof -
  obtain c cs where old: "old = c # cs" using assms(1) by (cases old) auto
  have "startswith (old @ rest) old" by (rule startswith_append)
  then have "replace_from (old @ rest) old [] = replace_from (drop (length old) (old @ rest)) old []"
    using old by simp
  then show ?thesis using replace_from_absent [OF assms(2)] by simp
qed

lemma set_replace_from: "set (replace_from s old new) \<subseteq> set s \<union> set new"
proof (induction s old new rule: replace_from.induct)
  case (1 old new)
  then show ?case by simp
next
  case (2 c cs old new)
  show ?case
  proof (cases "old \<noteq> [] \<and> startswith (c # cs) old")
    case True
    then have "set (replace_from (drop (length old) (c # cs)) old new)
        \<subseteq> set (drop (length old) (c # cs)) \<union> set new"
      using 2 by blast
    moreover have "set (drop (length old) (c # cs)) \<subseteq> set (c # cs)"
      by (rule set_drop_subset)
    ultimately show ?thesis using True by auto
  next
    case False
    then have "set (replace_from cs old new) \<subseteq> set cs \<union> set new" using 2 by blast
    then show ?thesis using False by auto
  qed
qed

lemma set_strip: "set (strip s) \<subseteq> set s"
proof -
  have "set (strip s) \<subseteq> set (rev (dropWhile isspace s))"
    unfolding strip_def using set_dropWhileD by fastforce
  also have "\<dots> \<subseteq> set s" using set_dropWhileD by fastforce
  finally show ?thesis .
qed

lemma not_isupper_lower_char: "\<not> isupper (lower_char c)"
  by (auto simp: isupper_def lower_char_def Let_def)

subsection \<open>Classification\<close>

text \<open>
  Claim C7. Whenever \<open>process_user_query\<close> classifies a query as general, the refined
  text it returns is the query itself, character for character; this happens exactly
  when the service replied and the reply, stripped and lowercased, does not start with
  \<^verbatim>\<open>movie:\<close>. The service's own echo of the query is never returned.
\<close>

theorem general_keeps_original_query:
  "fst (fst (process_user_query sv query)) = ''general'' \<Longrightarrow>
   snd (fst (process_user_query sv query)) = query \<and>
   (\<exists>text. generate_content sv (classification_prompt query) = Inr text \<and>
      \<not> startswith (lower (strip text)) ''movie:'')"
  by (auto simp: process_user_query_def Let_def split: sum.splits if_splits)

theorem general_keeps_original_query_witness:
  "snd (fst (process_user_query grossing_services grossing_query)) = grossing_query \<and>
   (\<exists>text. generate_content grossing_services (classification_prompt grossing_query) = Inr text \<and>
      \<not> startswith (lower (strip text)) ''movie:'')"
proof -
  have classified: "fst (fst (process_user_query grossing_services grossing_query)) = ''general''"
    by (simp add: process_user_query_def grossing_services_def offline_def text_eval)
  show ?thesis
    by (rule general_keeps_original_query [OF classified])
qed

text \<open>
  Claim C8. When the service raises during classification, \<open>process_user_query\<close>
  returns the pair \<^verbatim>\<open>("movie", query)\<close> with the query unchanged. Nothing reaches the
  caller but this pair: the exception only leaves a line on the console.
\<close>

theorem classification_failure_defaults_to_movie:
  "generate_content sv (classification_prompt query) = Inl e \<Longrightarrow>
   process_user_query sv query =
     ((''movie'', query),
      [Request (GenerateContent (classification_prompt query)),
       Print (''Error classifying query: '' @ e)])"
  by (simp add: process_user_query_def)

theorem classification_failure_defaults_to_movie_witness:
  "process_user_query offline ''inception'' =
     ((''movie'', ''inception''),
      [Request (GenerateContent (classification_prompt ''inception'')),
       Print (''Error classifying query: '' @ ''unreachable'')])"
proof -
  have raised: "generate_content offline (classification_prompt ''inception'') = Inl ''unreachable''"
    by (simp add: offline_def)
  show ?thesis
    by (rule classification_failure_defaults_to_movie [OF raised])
qed

text \<open>
  Claim C10, at the reply \<^verbatim>\<open>movie: The SpongeBob Movie: Sponge Out of Water\<close>. The text
  after the marker, lowercased and stripped, is
  \<^verbatim>\<open>the spongebob movie: sponge out of water\<close>; \<open>process_user_query\<close> returns
  \<^verbatim>\<open>the spongebob  sponge out of water\<close>, because \<^verbatim>\<open>replace\<close> removes every
  \<^verbatim>\<open>movie:\<close> of the lowercased reply and not only the marker at its start.
\<close>

theorem refined_title_loses_inner_marker:
  "fst (process_user_query spongebob_services spongebob_query) =
     (''movie'', ''the spongebob  sponge out of water'') \<and>
   strip (drop (length ''movie:'') (lower (strip ''movie: The SpongeBob Movie: Sponge Out of Water''))) =
     ''the spongebob movie: sponge out of water''"
  by (simp add: process_user_query_def spongebob_services_def offline_def text_eval)

text \<open>
  Where the text after the marker holds no further \<^verbatim>\<open>movie:\<close>, the refined title is
  that text, lowercased and stripped; and in every case no character of the refined
  title is an uppercase letter.
\<close>

lemma refined_title_without_inner_marker:
  assumes "generate_content sv (classification_prompt query) = Inr text"
    and "startswith (lower (strip text)) ''movie:''"
    and "\<not> contains (drop (length ''movie:'') (lower (strip text))) ''movie:''"
  shows "fst (process_user_query sv query) =
     (''movie'', strip (drop (length ''movie:'') (lower (strip text))))"
proof -
  let ?result = "lower (strip text)"
  have split: "?result = ''movie:'' @ drop (length ''movie:'') ?result"
    using startswith_drop [OF assms(2)] .
  have "replace_from (''movie:'' @ drop (length ''movie:'') ?result) ''movie:'' [] =
      drop (length ''movie:'') ?result"
    by (rule replace_from_marker_prefix) (simp, rule assms(3))
  then have "replace_from ?result ''movie:'' [] = drop (length ''movie:'') ?result"
    using split by metis
  then show ?thesis using assms(1,2) by (simp add: process_user_query_def replace_def)
qed

lemma refined_title_is_lowercase:
  assumes "fst (process_user_query sv query) = (''movie'', refined)"
    and "generate_content sv (classification_prompt query) = Inr text"
  shows "\<forall>c \<in> set refined. \<not> isupper c"
proof -
  from assms have refined: "refined = strip (replace (lower (strip text)) ''movie:'' '''')"
    by (auto simp: process_user_query_def Let_def split: if_splits)
  have "set refined \<subseteq> set (lower (strip text))"
    unfolding refined replace_def using set_strip set_replace_from by fastforce
  then show ?thesis using not_isupper_lower_char by (auto simp: lower_def)
qed

subsection \<open>Catalog search\<close>

text \<open>
  Claim C9. \<open>search_movie\<close> returns the first element of the service's \<^verbatim>\<open>results\<close>
  array when the array is not empty, and \<^verbatim>\<open>None\<close> otherwise: for an empty array and
  for a request that raised alike, so the caller cannot tell the two apart.
\<close>

theorem search_movie_first_or_none:
  "fst (search_movie sv query) =
     (case tmdb_search sv query of
        Inr (first # rest) \<Rightarrow> Some first
      | Inr [] \<Rightarrow> None
      | Inl e \<Rightarrow> None)"
  by (simp add: search_movie_def split: sum.splits list.splits)

subsection \<open>Trailer resolution\<close>

lemma tmdb_trailer_first_match:
  "tmdb_trailer movie_title videos =
     (case filter is_youtube_trailer videos of
        [] \<Rightarrow> None
      | video # rest \<Rightarrow>
          Some \<lparr>t_title = movie_title @ '' Official Trailer'',
                t_url = ''https://www.youtube.com/watch?v='' @ v_key video,
                t_video_id = v_key video\<rparr>)"
  by (induction videos) (simp_all add: is_youtube_trailer_def)

text \<open>
  Claim C5. When the video list of the details has an entry with site YouTube and type
  Trailer, \<open>find_trailer\<close> returns the first such entry, titled
  \<^verbatim>\<open><title> Official Trailer\<close>, with the URL built from the entry's key. The result is
  the same for all services \<open>sv\<close>, and no request is sent: the fallback tier is
  not consulted.
\<close>

theorem metadata_tier_first_trailer:
  "filter is_youtube_trailer (raw_video_list movie_data) = video # rest \<Longrightarrow>
   find_trailer sv movie_title year movie_data =
     (Some \<lparr>t_title = movie_title @ '' Official Trailer'',
            t_url = ''https://www.youtube.com/watch?v='' @ v_key video,
            t_video_id = v_key video\<rparr>, [])"
  by (auto simp: find_trailer_def raw_video_list_def tmdb_trailer_first_match
      split: option.splits list.splits)

theorem metadata_tier_first_trailer_witness:
  "find_trailer offline ''Inception'' (Some ''2010'') (Some inception_details) =
     (Some \<lparr>t_title = ''Inception Official Trailer'',
            t_url = ''https://www.youtube.com/watch?v=YoHD9XEInc0'',
            t_video_id = ''YoHD9XEInc0''\<rparr>, [])"
proof -
  have listed: "filter is_youtube_trailer (raw_video_list (Some inception_details)) =
      \<lparr>v_site = ''YouTube'', v_type = ''Trailer'', v_key = ''YoHD9XEInc0''\<rparr>
      # [\<lparr>v_site = ''YouTube'', v_type = ''Trailer'', v_key = ''8hP9D6kZseM''\<rparr>]"
    by (simp add: raw_video_list_def inception_details_def is_youtube_trailer_def)
  show ?thesis
    using metadata_tier_first_trailer [OF listed, of offline "''Inception''" "Some ''2010''"]
    by simp
qed

lemma re_search_watch_sound:
  "re_search_watch href = Some vid \<Longrightarrow>
   vid \<noteq> [] \<and> CHR ''&'' \<notin> set vid \<and>
   (\<exists>pre post. href = pre @ ''youtube.com/watch?v='' @ vid @ post)"
proof (induction href)
  case Nil
  then show ?case by simp
next
  case (Cons c cs)
  let ?pat = "''youtube.com/watch?v=''"
  let ?tail = "drop (length ?pat) (c # cs)"
  let ?id = "takeWhile (\<lambda>x. x \<noteq> CHR ''&'') ?tail"
  show ?case
  proof (cases "startswith (c # cs) ?pat \<and> ?id \<noteq> []")
    case True
    with Cons.prems have vid: "vid = ?id" by (simp add: Let_def)
    from True have "c # cs = ?pat @ ?tail"
      using startswith_drop by blast
    also have "?tail = ?id @ dropWhile (\<lambda>x. x \<noteq> CHR ''&'') ?tail"
      by simp
    finally have "c # cs = [] @ ?pat @ vid @ dropWhile (\<lambda>x. x \<noteq> CHR ''&'') ?tail"
      using vid by simp
    then have "\<exists>pre post. c # cs = pre @ ?pat @ vid @ post" by blast
    moreover have "vid \<noteq> []" using True vid by simp
    moreover have "CHR ''&'' \<notin> set vid" unfolding vid using set_takeWhileD by fastforce
    ultimately show ?thesis by blast
  next
    case False
    with Cons.prems have "re_search_watch cs = Some vid" by (auto simp: Let_def split: if_splits)
    then obtain pre post where "vid \<noteq> []" "CHR ''&'' \<notin> set vid" "cs = pre @ ?pat @ vid @ post"
      using Cons.IH by blast
    then have "c # cs = (c # pre) @ ?pat @ vid @ post" by simp
    with \<open>vid \<noteq> []\<close> \<open>CHR ''&'' \<notin> set vid\<close> show ?thesis by blast
  qed
qed

lemma re_search_watch_complete:
  "vid \<noteq> [] \<Longrightarrow> CHR ''&'' \<notin> set vid \<Longrightarrow>
   re_search_watch (pre @ ''youtube.com/watch?v='' @ vid @ post) \<noteq> None"
proof (induction pre)
  case Nil
  let ?pat = "''youtube.com/watch?v=''"
  from Nil obtain v vs where vid: "vid = v # vs" and v: "v \<noteq> CHR ''&''"
    by (cases vid) auto
  have "takeWhile (\<lambda>x. x \<noteq> CHR ''&'') (drop (length ?pat) (?pat @ vid @ post)) \<noteq> []"
    using vid v by simp
  then show ?case using vid by (simp add: Let_def)
next
  case (Cons c pre)
  then have "re_search_watch (pre @ ''youtube.com/watch?v='' @ vid @ post) \<noteq> None" by blast
  then show ?case by (simp add: Let_def)
qed

lemma re_search_watch_iff: "re_search_watch href \<noteq> None \<longleftrightarrow> watch_url_match href"
  unfolding watch_url_match_def
  using re_search_watch_sound re_search_watch_complete by (metis not_Some_eq)

lemma watch_url_match_contains: "watch_url_match href \<Longrightarrow> contains href ''youtube.com/watch''"
proof -
  assume "watch_url_match href"
  then obtain pre vid post where "href = pre @ ''youtube.com/watch?v='' @ vid @ post"
    unfolding watch_url_match_def by blast
  then have "href = pre @ ''youtube.com/watch'' @ (''?v='' @ vid @ post)" by simp
  then show ?thesis unfolding contains_iff by blast
qed

lemma youtube_links_filter:
  "youtube_links movie_title links =
     map (\<lambda>href. \<lparr>t_title = movie_title @ '' Trailer'',
                   t_url = ''https://www.youtube.com/watch?v='' @ the (re_search_watch href),
                   t_video_id = the (re_search_watch href)\<rparr>)
       (filter watch_url_match (map href_of links))"
proof (induction links)
  case Nil
  then show ?case by simp
next
  case (Cons link links)
  show ?case
  proof (cases "watch_url_match (href_of link)")
    case True
    then obtain vid where "re_search_watch (href_of link) = Some vid"
      using re_search_watch_iff by blast
    with True Cons.IH show ?thesis
      using watch_url_match_contains [OF True] by (simp add: Let_def)
  next
    case False
    then have "re_search_watch (href_of link) = None"
      using re_search_watch_iff by blast
    with False Cons.IH show ?thesis
      by (simp add: Let_def)
  qed
qed

lemma first_youtube_link:
  "(case youtube_links movie_title links of first # _ \<Rightarrow> Some first | [] \<Rightarrow> None) =
     (case find watch_url_match (map href_of links) of
        Some href \<Rightarrow>
          map_option
            (\<lambda>video_id. \<lparr>t_title = movie_title @ '' Trailer'',
                          t_url = ''https://www.youtube.com/watch?v='' @ video_id,
                          t_video_id = video_id\<rparr>)
            (re_search_watch href)
      | None \<Rightarrow> None)"
proof (induction links)
  case Nil
  then show ?case by simp
next
  case (Cons link links)
  show ?case
  proof (cases "watch_url_match (href_of link)")
    case True
    then obtain vid where "re_search_watch (href_of link) = Some vid"
      using re_search_watch_iff by blast
    with True show ?thesis
      using watch_url_match_contains [OF True] by (simp add: Let_def)
  next
    case False
    then have "re_search_watch (href_of link) = None"
      using re_search_watch_iff by blast
    with False Cons.IH show ?thesis
      by (simp add: Let_def)
  qed
qed

text \<open>
  Claim C6. When the video list of the details has no YouTube trailer entry,
  \<open>find_trailer\<close> sends one request, for the search
  \<^verbatim>\<open><title> official trailer\<close> with the year appended when there is one (a year that is
  \<^verbatim>\<open>None\<close> or the empty string is not appended). Of the page's hyperlinks only those
  matching \<^verbatim>\<open>youtube.com/watch?v=<id>\<close> are candidates; the result is the first of them,
  titled \<^verbatim>\<open><title> Trailer\<close>, with the URL rebuilt from the id that the regular
  expression extracts. Without a candidate, or when the request raises, the result
  is \<^verbatim>\<open>None\<close>. Every matching hyperlink has such an id: not empty, free of \<^verbatim>\<open>&\<close>, and
  standing in the hyperlink right after \<^verbatim>\<open>youtube.com/watch?v=\<close>.
\<close>

theorem fallback_tier_first_watch_link:
  "filter is_youtube_trailer (raw_video_list movie_data) = [] \<Longrightarrow>
   find_trailer sv movie_title year movie_data =
     (case web_get sv (fallback_search_url movie_title year) of
        Inr links \<Rightarrow>
          (case find watch_url_match (map href_of links) of
             Some href \<Rightarrow>
               map_option
                 (\<lambda>video_id. \<lparr>t_title = movie_title @ '' Trailer'',
                               t_url = ''https://www.youtube.com/watch?v='' @ video_id,
                               t_video_id = video_id\<rparr>)
                 (re_search_watch href)
           | None \<Rightarrow> None,
           [Request (WebGet (fallback_search_url movie_title year))])
      | Inl e \<Rightarrow>
          (None,
           [Request (WebGet (fallback_search_url movie_title year)),
            Print (''Error finding trailer: '' @ e)])) \<and>
   (\<forall>href. watch_url_match href \<longrightarrow>
      (\<exists>video_id pre post. re_search_watch href = Some video_id \<and> video_id \<noteq> [] \<and>
         CHR ''&'' \<notin> set video_id \<and> href = pre @ ''youtube.com/watch?v='' @ video_id @ post))"
proof -
  assume none: "filter is_youtube_trailer (raw_video_list movie_data) = []"
  have tier1:
    "(case movie_data of
        None \<Rightarrow> None
      | Some md \<Rightarrow>
          (case d_videos md of
             None \<Rightarrow> None
           | Some results \<Rightarrow> if results \<noteq> [] then tmdb_trailer movie_title results else None)) = None"
    using none by (auto simp: raw_video_list_def tmdb_trailer_first_match split: option.splits)
  have tier2: "find_trailer sv movie_title year movie_data =
     (case web_get sv (fallback_search_url movie_title year) of
        Inr links \<Rightarrow>
          (case find watch_url_match (map href_of links) of
             Some href \<Rightarrow>
               map_option
                 (\<lambda>video_id. \<lparr>t_title = movie_title @ '' Trailer'',
                               t_url = ''https://www.youtube.com/watch?v='' @ video_id,
                               t_video_id = video_id\<rparr>)
                 (re_search_watch href)
           | None \<Rightarrow> None,
           [Request (WebGet (fallback_search_url movie_title year))])
      | Inl e \<Rightarrow>
          (None,
           [Request (WebGet (fallback_search_url movie_title year)),
            Print (''Error finding trailer: '' @ e)]))"
    unfolding find_trailer_def tier1
    by (cases year)
      (simp_all add: Let_def first_youtube_link fallback_search_url_def split: sum.splits)
  have ids: "\<exists>video_id pre post. re_search_watch href = Some video_id \<and> video_id \<noteq> [] \<and>
         CHR ''&'' \<notin> set video_id \<and> href = pre @ ''youtube.com/watch?v='' @ video_id @ post"
    if "watch_url_match href" for href
  proof -
    from that obtain video_id where found: "re_search_watch href = Some video_id"
      using re_search_watch_iff by blast
    from re_search_watch_sound [OF found] found show ?thesis by blast
  qed
  from tier2 ids show ?thesis by blast
qed

theorem fallback_tier_first_watch_link_witness:
  "find_trailer result_page_services ''Inception'' (Some ''2010'') None =
     (Some \<lparr>t_title = ''Inception Trailer'',
            t_url = ''https://www.youtube.com/watch?v=YoHD9XEInc0'',
            t_video_id = ''YoHD9XEInc0''\<rparr>,
      [Request (WebGet ''https://www.google.com/search?q=Inception official trailer 2010+site:youtube.com'')])"
proof -
  have unlisted: "filter is_youtube_trailer (raw_video_list None) = []"
    by (simp add: raw_video_list_def)
  have "find_trailer result_page_services ''Inception'' (Some ''2010'') None =
     (case web_get result_page_services (fallback_search_url ''Inception'' (Some ''2010'')) of
        Inr links \<Rightarrow>
          (case find watch_url_match (map href_of links) of
             Some href \<Rightarrow>
               map_option
                 (\<lambda>video_id. \<lparr>t_title = ''Inception'' @ '' Trailer'',
                               t_url = ''https://www.youtube.com/watch?v='' @ video_id,
                               t_video_id = video_id\<rparr>)
                 (re_search_watch href)
           | None \<Rightarrow> None,
           [Request (WebGet (fallback_search_url ''Inception'' (Some ''2010'')))])
      | Inl e \<Rightarrow>
          (None,
           [Request (WebGet (fallback_search_url ''Inception'' (Some ''2010''))),
            Print (''Error finding trailer: '' @ e)]))"
    using fallback_tier_first_watch_link [OF unlisted] by (rule conjunct1)
  then show ?thesis
    by (simp add: result_page_services_def offline_def fallback_search_url_def href_of_def
        re_search_watch_iff [symmetric])
qed

subsection \<open>Response synthesis\<close>

lemma consume_stream_eq:
  "consume_stream s response_text =
     (case stream_error s of
        None \<Rightarrow> Inr (response_text @ concat (stream_chunks s))
      | Some e \<Rightarrow> Inl e,
      map Callback (stream_chunks s))"
  by (induction s arbitrary: response_text) (auto split: option.splits)

lemma callbacks_of_append: "callbacks_of (xs @ ys) = callbacks_of xs @ callbacks_of ys"
  by (induction xs rule: callbacks_of.induct) auto

lemma callbacks_of_map_Callback: "callbacks_of (map Callback ps) = ps"
  by (induction ps) auto

lemma try_generate_fails:
  "service_fails sv prompt streaming callback \<Longrightarrow>
   \<exists>e. try_generate sv prompt streaming callback =
     (Inl e,
      if streaming \<and> callback
      then Request (GenerateContentStream prompt)
           # map Callback (stream_chunks (generate_content_stream sv prompt))
      else [Request (GenerateContent prompt)])"
  by (auto simp: service_fails_def try_generate_def consume_stream_eq split: sum.splits if_splits)

lemma try_generate_stream_ok:
  "stream_error (generate_content_stream sv prompt) = None \<Longrightarrow>
   try_generate sv prompt True True =
     (Inr (concat (stream_chunks (generate_content_stream sv prompt))),
      Request (GenerateContentStream prompt)
      # map Callback (stream_chunks (generate_content_stream sv prompt)))"
  by (simp add: try_generate_def consume_stream_eq)

lemma try_generate_single:
  "\<not> (streaming \<and> callback) \<Longrightarrow>
   try_generate sv prompt streaming callback =
     (generate_content sv prompt, [Request (GenerateContent prompt)])"
  by (auto simp: try_generate_def)

lemma fallback_contains_title:
  "contains (create_fallback_response context) (ctx_title context)"
  unfolding create_fallback_response_def by (rule contains_mid)

lemma general_fallback_contains_query: "contains (general_fallback query) query"
proof -
  have "general_fallback query =
      (''I'm sorry, I couldn't process your query: '' @ [CHR 0x27]) @ query
       @ ([CHR 0x27] @ ''. Please try asking in a different way.'')"
    by (simp add: general_fallback_def)
  then show ?thesis using contains_mid by metis
qed

text \<open>The fallback text for the details of the scenario, computed.\<close>

lemma fallback_example:
  "create_fallback_response (make_context inception_details None) =
     ''\<newline>        Inception (2010)\<newline>\<newline>        Rating: 8.4/10  \<newline>        Runtime: 148 minutes  \<newline>        Genres: Action, Science Fiction\<newline>\<newline>        Overview:\<newline>        A thief steals secrets through dreams.\<newline>\<newline>        Cast & Crew:\<newline>        Director: Christopher Nolan  \<newline>        Starring: Leonardo DiCaprio, Joseph Gordon-Levitt, Ken Watanabe, Tom Hardy, Elliot Page\<newline>\<newline>        Watch Trailer:\<newline>        Trailer not available\<newline>\<newline>        Budget: $160,000,000  \<newline>        Box Office: $839,030,630\<newline>        ''"
  by (simp add: create_fallback_response_def make_context_def inception_details_def
      get_director_def get_cast_def text_eval str_nat.simps)

lemma movie_failure:
  assumes "service_fails sv (movie_prompt (make_context movie_data trailer_info)) streaming callback"
  shows "fst (generate_movie_response sv movie_data trailer_info streaming callback) =
           create_fallback_response (make_context movie_data trailer_info)"
    and "callback \<Longrightarrow>
         callbacks_of (snd (generate_movie_response sv movie_data trailer_info streaming callback)) =
           (if streaming
            then stream_chunks (generate_content_stream sv (movie_prompt (make_context movie_data trailer_info)))
            else [])
           @ [create_fallback_response (make_context movie_data trailer_info)]"
proof -
  from try_generate_fails [OF assms] obtain e where
    "try_generate sv (movie_prompt (make_context movie_data trailer_info)) streaming callback =
     (Inl e,
      if streaming \<and> callback
      then Request (GenerateContentStream (movie_prompt (make_context movie_data trailer_info)))
           # map Callback
               (stream_chunks (generate_content_stream sv (movie_prompt (make_context movie_data trailer_info))))
      else [Request (GenerateContent (movie_prompt (make_context movie_data trailer_info)))])"
    by blast
  then show "fst (generate_movie_response sv movie_data trailer_info streaming callback) =
           create_fallback_response (make_context movie_data trailer_info)"
    and "callback \<Longrightarrow>
         callbacks_of (snd (generate_movie_response sv movie_data trailer_info streaming callback)) =
           (if streaming
            then stream_chunks (generate_content_stream sv (movie_prompt (make_context movie_data trailer_info)))
            else [])
           @ [create_fallback_response (make_context movie_data trailer_info)]"
    by (simp_all add: generate_movie_response_def Let_def callbacks_of_append callbacks_of_map_Callback)
qed

lemma general_failure:
  assumes "service_fails sv (general_prompt query) streaming callback"
  shows "fst (generate_general_response sv query streaming callback) = general_fallback query"
    and "callback \<Longrightarrow>
         callbacks_of (snd (generate_general_response sv query streaming callback)) =
           (if streaming then stream_chunks (generate_content_stream sv (general_prompt query)) else [])
           @ [general_fallback query]"
proof -
  from try_generate_fails [OF assms] obtain e where
    "try_generate sv (general_prompt query) streaming callback =
     (Inl e,
      if streaming \<and> callback
      then Request (GenerateContentStream (general_prompt query))
           # map Callback (stream_chunks (generate_content_stream sv (general_prompt query)))
      else [Request (GenerateContent (general_prompt query))])"
    by blast
  then show "fst (generate_general_response sv query streaming callback) = general_fallback query"
    and "callback \<Longrightarrow>
         callbacks_of (snd (generate_general_response sv query streaming callback)) =
           (if streaming then stream_chunks (generate_content_stream sv (general_prompt query)) else [])
           @ [general_fallback query]"
    by (simp_all add: generate_general_response_def Let_def callbacks_of_append callbacks_of_map_Callback)
qed

text \<open>
  Claim C3. When the generative-text service fails for a call of
  \<open>generate_movie_response\<close> or \<open>generate_general_response\<close>, the call returns the
  fallback text: a function of the movie data and trailer alone (movie path) or of the
  query alone (general path), never empty, and containing the movie's title (the word
  \<^verbatim>\<open>Unknown\<close> for details without a title), respectively the query. When a callback was
  passed, the fallback reaches it as one fragment: the last one, after the fragments that
  a stream delivered before it broke.
\<close>

theorem synthesis_failure_gives_fallback:
  "(service_fails sv (movie_prompt (make_context movie_data trailer_info)) streaming callback \<longrightarrow>
      fst (generate_movie_response sv movie_data trailer_info streaming callback) =
        create_fallback_response (make_context movie_data trailer_info) \<and>
      create_fallback_response (make_context movie_data trailer_info) \<noteq> [] \<and>
      contains (create_fallback_response (make_context movie_data trailer_info))
        (case d_title movie_data of Some title \<Rightarrow> title | None \<Rightarrow> ''Unknown'') \<and>
      (callback \<longrightarrow>
         callbacks_of (snd (generate_movie_response sv movie_data trailer_info streaming callback)) =
           (if streaming
            then stream_chunks (generate_content_stream sv (movie_prompt (make_context movie_data trailer_info)))
            else [])
           @ [create_fallback_response (make_context movie_data trailer_info)])) \<and>
   (service_fails sv (general_prompt query) streaming callback \<longrightarrow>
      fst (generate_general_response sv query streaming callback) = general_fallback query \<and>
      general_fallback query \<noteq> [] \<and>
      contains (general_fallback query) query \<and>
      (callback \<longrightarrow>
         callbacks_of (snd (generate_general_response sv query streaming callback)) =
           (if streaming then stream_chunks (generate_content_stream sv (general_prompt query)) else [])
           @ [general_fallback query]))"
proof -
  have title: "ctx_title (make_context movie_data trailer_info) =
      (case d_title movie_data of Some title \<Rightarrow> title | None \<Rightarrow> ''Unknown'')"
    by (simp add: make_context_def)
  have m1: "create_fallback_response (make_context movie_data trailer_info) \<noteq> []"
    by (simp add: create_fallback_response_def)
  have m2: "contains (create_fallback_response (make_context movie_data trailer_info))
        (case d_title movie_data of Some title \<Rightarrow> title | None \<Rightarrow> ''Unknown'')"
    using fallback_contains_title [of "make_context movie_data trailer_info"] title by simp
  have g1: "general_fallback query \<noteq> []"
    by (simp add: general_fallback_def)
  have g2: "contains (general_fallback query) query"
    by (rule general_fallback_contains_query)
  show ?thesis
    using m1 m2 g1 g2
      movie_failure [of sv movie_data trailer_info streaming callback]
      general_failure [of sv query streaming callback]
    by blast
qed

theorem synthesis_failure_gives_fallback_witness:
  "fst (generate_movie_response interrupted_services inception_details None True True) =
     create_fallback_response (make_context inception_details None) \<and>
   create_fallback_response (make_context inception_details None) \<noteq> [] \<and>
   contains (create_fallback_response (make_context inception_details None)) ''Inception'' \<and>
   callbacks_of (snd (generate_movie_response interrupted_services inception_details None True True)) =
     [''Incep'', create_fallback_response (make_context inception_details None)] \<and>
   fst (generate_general_response interrupted_services grossing_query True True) =
     general_fallback grossing_query \<and>
   general_fallback grossing_query \<noteq> [] \<and>
   contains (general_fallback grossing_query) grossing_query \<and>
   callbacks_of (snd (generate_general_response interrupted_services grossing_query True True)) =
     [''Incep'', general_fallback grossing_query]"
proof -
  have movie_fails:
    "service_fails interrupted_services (movie_prompt (make_context inception_details None)) True True"
    by (simp add: service_fails_def interrupted_services_def offline_def)
  have general_fails:
    "service_fails interrupted_services (general_prompt grossing_query) True True"
    by (simp add: service_fails_def interrupted_services_def offline_def)
  have title: "d_title inception_details = Some ''Inception''"
    by (simp add: inception_details_def)
  have chunks: "stream_chunks (generate_content_stream interrupted_services prompt) = [''Incep'']"
    for prompt
    by (simp add: interrupted_services_def offline_def)
  show ?thesis
    using synthesis_failure_gives_fallback
      [of interrupted_services inception_details None True True grossing_query]
      movie_fails general_fails
    by (simp add: title chunks)
qed

lemma movie_streaming:
  assumes "stream_error (generate_content_stream sv (movie_prompt (make_context movie_data trailer_info))) = None"
  shows "generate_movie_response sv movie_data trailer_info True True =
     (concat (stream_chunks (generate_content_stream sv (movie_prompt (make_context movie_data trailer_info)))),
      Call (GenerateMovieResponse movie_data trailer_info True True)
      # Request (GenerateContentStream (movie_prompt (make_context movie_data trailer_info)))
      # map Callback
          (stream_chunks (generate_content_stream sv (movie_prompt (make_context movie_data trailer_info)))))"
  by (simp add: generate_movie_response_def Let_def try_generate_stream_ok [OF assms])

lemma movie_single_shot:
  assumes "generate_content sv (movie_prompt (make_context movie_data trailer_info)) = Inr text"
  shows "generate_movie_response sv movie_data trailer_info False callback =
     (text,
      [Call (GenerateMovieResponse movie_data trailer_info False callback),
       Request (GenerateContent (movie_prompt (make_context movie_data trailer_info)))])"
  by (simp add: generate_movie_response_def Let_def try_generate_single assms)

lemma general_streaming:
  assumes "stream_error (generate_content_stream sv (general_prompt query)) = None"
  shows "generate_general_response sv query True True =
     (concat (stream_chunks (generate_content_stream sv (general_prompt query))),
      Call (GenerateGeneralResponse query True True)
      # Request (GenerateContentStream (general_prompt query))
      # map Callback (stream_chunks (generate_content_stream sv (general_prompt query))))"
  by (simp add: generate_general_response_def Let_def try_generate_stream_ok [OF assms])

lemma general_single_shot:
  assumes "generate_content sv (general_prompt query) = Inr text"
  shows "generate_general_response sv query False callback =
     (text,
      [Call (GenerateGeneralResponse query False callback),
       Request (GenerateContent (general_prompt query))])"
  by (simp add: generate_general_response_def Let_def try_generate_single assms)

text \<open>
  Claim C4. When a streaming call of \<open>generate_movie_response\<close> or
  \<open>generate_general_response\<close> succeeds (the stream ends without an exception), the
  callback has received exactly the stream's fragments, in their order, and the returned
  text is their concatenation. A single-shot call for the same prompt, answered by a
  service \<open>sv'\<close> whose full text is that concatenation, returns the same text.
\<close>

theorem streaming_equals_single_shot:
  "(stream_error (generate_content_stream sv (movie_prompt (make_context movie_data trailer_info))) = None \<longrightarrow>
      callbacks_of (snd (generate_movie_response sv movie_data trailer_info True True)) =
        stream_chunks (generate_content_stream sv (movie_prompt (make_context movie_data trailer_info))) \<and>
      fst (generate_movie_response sv movie_data trailer_info True True) =
        concat (callbacks_of (snd (generate_movie_response sv movie_data trailer_info True True))) \<and>
      (\<forall>sv' callback.
         generate_content sv' (movie_prompt (make_context movie_data trailer_info)) =
           Inr (concat (stream_chunks
             (generate_content_stream sv (movie_prompt (make_context movie_data trailer_info))))) \<longrightarrow>
         fst (generate_movie_response sv' movie_data trailer_info False callback) =
           fst (generate_movie_response sv movie_data trailer_info True True))) \<and>
   (stream_error (generate_content_stream sv (general_prompt query)) = None \<longrightarrow>
      callbacks_of (snd (generate_general_response sv query True True)) =
        stream_chunks (generate_content_stream sv (general_prompt query)) \<and>
      fst (generate_general_response sv query True True) =
        concat (callbacks_of (snd (generate_general_response sv query True True))) \<and>
      (\<forall>sv' callback.
         generate_content sv' (general_prompt query) =
           Inr (concat (stream_chunks (generate_content_stream sv (general_prompt query)))) \<longrightarrow>
         fst (generate_general_response sv' query False callback) =
           fst (generate_general_response sv query True True)))"
  by (simp add: movie_streaming movie_single_shot general_streaming general_single_shot
      callbacks_of_map_Callback)

theorem streaming_equals_single_shot_witness:
  "callbacks_of (snd (generate_movie_response streaming_services inception_details None True True)) =
     [''Inception '', ''is a 2010 '', ''film.''] \<and>
   fst (generate_movie_response streaming_services inception_details None True True) =
     ''Inception is a 2010 film.'' \<and>
   fst (generate_movie_response streaming_services inception_details None False False) =
     ''Inception is a 2010 film.'' \<and>
   callbacks_of (snd (generate_general_response streaming_services grossing_query True True)) =
     [''Inception '', ''is a 2010 '', ''film.''] \<and>
   fst (generate_general_response streaming_services grossing_query True True) =
     ''Inception is a 2010 film.'' \<and>
   fst (generate_general_response streaming_services grossing_query False False) =
     ''Inception is a 2010 film.''"
proof -
  have stream: "generate_content_stream streaming_services prompt =
      StreamChunk ''Inception '' (StreamChunk ''is a 2010 '' (StreamChunk ''film.'' StreamEnd))"
    for prompt
    by (simp add: streaming_services_def offline_def)
  have single: "generate_content streaming_services prompt = Inr ''Inception is a 2010 film.''"
    for prompt
    by (simp add: streaming_services_def offline_def)
  show ?thesis
    using streaming_equals_single_shot
      [of streaming_services inception_details None grossing_query]
    by (simp add: stream single)
qed

subsection \<open>Orchestration\<close>

lemma calls_of_append: "calls_of (xs @ ys) = calls_of xs @ calls_of ys"
  by (induction xs rule: calls_of.induct) auto

lemma requests_of_append: "requests_of (xs @ ys) = requests_of xs @ requests_of ys"
  by (induction xs rule: requests_of.induct) auto

lemma statuses_of_append: "statuses_of (xs @ ys) = statuses_of xs @ statuses_of ys"
  by (induction xs rule: statuses_of.induct) auto

lemma calls_of_map_Callback: "calls_of (map Callback ps) = []"
  by (induction ps) auto

lemma statuses_of_map_Callback: "statuses_of (map Callback ps) = []"
  by (induction ps) auto

lemma process_user_query_events:
  "calls_of (snd (process_user_query sv query)) = []"
  "callbacks_of (snd (process_user_query sv query)) = []"
  "statuses_of (snd (process_user_query sv query)) = []"
  "requests_of (snd (process_user_query sv query)) = [GenerateContent (classification_prompt query)]"
  by (simp_all add: process_user_query_def split: sum.splits)

lemma search_movie_events:
  "calls_of (snd (search_movie sv query)) = []"
  "callbacks_of (snd (search_movie sv query)) = []"
  "statuses_of (snd (search_movie sv query)) = []"
  "requests_of (snd (search_movie sv query)) = [TmdbSearch query]"
  by (simp_all add: search_movie_def split: sum.splits)

lemma get_movie_details_events:
  "calls_of (snd (get_movie_details sv movie_id)) = []"
  "callbacks_of (snd (get_movie_details sv movie_id)) = []"
  "statuses_of (snd (get_movie_details sv movie_id)) = []"
  "requests_of (snd (get_movie_details sv movie_id)) = [TmdbDetails movie_id]"
  by (simp_all add: get_movie_details_def split: sum.splits)

lemma try_generate_events:
  "calls_of (snd (try_generate sv prompt streaming callback)) = []"
  "statuses_of (snd (try_generate sv prompt streaming callback)) = []"
  by (simp_all add: try_generate_def consume_stream_eq calls_of_map_Callback
      statuses_of_map_Callback)

lemma generate_general_response_events:
  "calls_of (snd (generate_general_response sv query streaming callback)) =
     [GenerateGeneralResponse query streaming callback]"
  "statuses_of (snd (generate_general_response sv query streaming callback)) = []"
proof -
  obtain r evs where attempt: "try_generate sv (general_prompt query) streaming callback = (r, evs)"
    by (cases "try_generate sv (general_prompt query) streaming callback")
  then have quiet: "calls_of evs = []" "statuses_of evs = []"
    using try_generate_events [of sv "general_prompt query" streaming callback] by simp_all
  show "calls_of (snd (generate_general_response sv query streaming callback)) =
     [GenerateGeneralResponse query streaming callback]"
    using attempt quiet
    by (cases r) (simp_all add: generate_general_response_def Let_def calls_of_append)
  show "statuses_of (snd (generate_general_response sv query streaming callback)) = []"
    using attempt quiet
    by (cases r) (simp_all add: generate_general_response_def Let_def statuses_of_append)
qed

lemma not_found_events:
  assumes "fst (process_user_query sv query) = (''movie'', refined)"
    and "fst (search_movie sv refined) = None"
  shows "fst (gui_handle_query sv self query) = Returned"
    and "calls_of (handle_events sv self query) = [GenerateGeneralResponse refined True True]"
    and "statuses_of (handle_events sv self query) =
      [''Searching for movie: '' @ refined,
       ''Movie not found: '' @ refined,
       ''Treating '' @ [CHR 0x27] @ refined @ [CHR 0x27] @ '' as a general question...'',
       ''Answering: '' @ refined]"
proof -
  obtain evs0 where classify: "process_user_query sv query = ((''movie'', refined), evs0)"
    using assms(1) by (cases "process_user_query sv query") auto
  obtain evs1 where search: "search_movie sv refined = (None, evs1)"
    using assms(2) by (cases "search_movie sv refined") auto
  have evs0: "calls_of evs0 = []" "statuses_of evs0 = []"
    using process_user_query_events [of sv query] classify by simp_all
  have evs1: "calls_of evs1 = []" "statuses_of evs1 = []"
    using search_movie_events [of sv refined] search by simp_all
  show "fst (gui_handle_query sv self query) = Returned"
    by (simp add: gui_handle_query_def classify gui_search_movie_def search)
  show "calls_of (handle_events sv self query) = [GenerateGeneralResponse refined True True]"
    by (simp add: gui_handle_query_def classify gui_search_movie_def search
        gui_handle_movie_not_found_def gui_answer_general_query_def
        calls_of_append evs0 evs1 generate_general_response_events)
  show "statuses_of (handle_events sv self query) =
      [''Searching for movie: '' @ refined,
       ''Movie not found: '' @ refined,
       ''Treating '' @ [CHR 0x27] @ refined @ [CHR 0x27] @ '' as a general question...'',
       ''Answering: '' @ refined]"
    by (simp add: gui_handle_query_def classify gui_search_movie_def search
        gui_handle_movie_not_found_def gui_answer_general_query_def
        statuses_of_append evs0 evs1 generate_general_response_events)
qed

text \<open>
  Claim C1 as the specification states it fails. For the query
  \<^verbatim>\<open>Tell me about Inception\<close>, classified with the reply \<^verbatim>\<open>movie: Inception\<close> and
  not found in the catalog, the one response generator called is the general one, and
  it receives the refined title \<^verbatim>\<open>inception\<close>, not the query.
\<close>

theorem not_found_reroute_gets_refined_title:
  "fst (search_movie unlisted_services
      (snd (fst (process_user_query unlisted_services ''Tell me about Inception'')))) = None \<and>
   calls_of (handle_events unlisted_services initial_gui ''Tell me about Inception'') =
     [GenerateGeneralResponse ''inception'' True True] \<and>
   calls_of (handle_events unlisted_services initial_gui ''Tell me about Inception'') \<noteq>
     [GenerateGeneralResponse ''Tell me about Inception'' True True]"
proof -
  have classify:
    "fst (process_user_query unlisted_services ''Tell me about Inception'') = (''movie'', ''inception'')"
    by (simp add: process_user_query_def unlisted_services_def offline_def text_eval)
  have search: "fst (search_movie unlisted_services ''inception'') = None"
    by (simp add: search_movie_def unlisted_services_def offline_def)
  from not_found_events(2) [OF classify search, of initial_gui] classify search
  show ?thesis by simp
qed

text \<open>
  Claim C1, amended. When a query is classified as a movie and the catalog search for
  the refined text returns \<^verbatim>\<open>None\<close>, \<open>gui_handle_query\<close> re-routes to the general path:
  it calls \<open>generate_general_response\<close> once, streaming, and no other generator, and the
  text it passes is the text that was searched for, the refined title of the
  classification. (That is the query itself when the classification failed, by
  claim C8.)
\<close>

theorem not_found_reroutes_with_searched_text:
  "fst (process_user_query sv query) = (''movie'', refined) \<Longrightarrow>
   fst (search_movie sv refined) = None \<Longrightarrow>
   fst (gui_handle_query sv self query) = Returned \<and>
   calls_of (handle_events sv self query) = [GenerateGeneralResponse refined True True] \<and>
   statuses_of (handle_events sv self query) =
     [''Searching for movie: '' @ refined,
      ''Movie not found: '' @ refined,
      ''Treating '' @ [CHR 0x27] @ refined @ [CHR 0x27] @ '' as a general question...'',
      ''Answering: '' @ refined]"
  using not_found_events [of sv query refined self] by simp

theorem not_found_reroutes_with_searched_text_witness:
  "fst (gui_handle_query nonexistent_services initial_gui nonexistent_query) = Returned \<and>
   calls_of (handle_events nonexistent_services initial_gui nonexistent_query) =
     [GenerateGeneralResponse ''zzzqqqnonexistentfilm123'' True True] \<and>
   statuses_of (handle_events nonexistent_services initial_gui nonexistent_query) =
     [''Searching for movie: '' @ ''zzzqqqnonexistentfilm123'',
      ''Movie not found: '' @ ''zzzqqqnonexistentfilm123'',
      ''Treating '' @ [CHR 0x27] @ ''zzzqqqnonexistentfilm123'' @ [CHR 0x27]
        @ '' as a general question...'',
      ''Answering: '' @ ''zzzqqqnonexistentfilm123'']"
proof -
  have classify:
    "fst (process_user_query nonexistent_services nonexistent_query) =
       (''movie'', ''zzzqqqnonexistentfilm123'')"
    by (simp add: process_user_query_def nonexistent_services_def nonexistent_query_def
        offline_def text_eval)
  have search: "fst (search_movie nonexistent_services ''zzzqqqnonexistentfilm123'') = None"
    by (simp add: search_movie_def nonexistent_services_def offline_def)
  show ?thesis
    by (rule not_found_reroutes_with_searched_text [OF classify search])
qed

text \<open>
  Claim C2. When the catalog search finds a movie and \<open>get_movie_details\<close> returns
  \<^verbatim>\<open>None\<close> for it, \<open>gui_handle_query\<close> reports the failure in the status line and
  returns. Neither response generator is called and the callback never receives a
  fragment, generated or fallback: the only requests sent are the classification, the
  search and the detail fetch.
\<close>

theorem details_unavailable_is_terminal:
  "fst (process_user_query sv query) = (''movie'', refined) \<Longrightarrow>
   fst (search_movie sv refined) = Some movie \<Longrightarrow>
   fst (get_movie_details sv (m_id movie)) = None \<Longrightarrow>
   fst (gui_handle_query sv self query) = Returned \<and>
   calls_of (handle_events sv self query) = [] \<and>
   callbacks_of (handle_events sv self query) = [] \<and>
   requests_of (handle_events sv self query) =
     [GenerateContent (classification_prompt query), TmdbSearch refined, TmdbDetails (m_id movie)] \<and>
   statuses_of (handle_events sv self query) =
     [''Searching for movie: '' @ refined,
      ''Found: '' @ m_title movie @ '' - Getting details...'',
      ''Error fetching details for '' @ m_title movie]"
proof -
  assume kind: "fst (process_user_query sv query) = (''movie'', refined)"
    and found: "fst (search_movie sv refined) = Some movie"
    and unavailable: "fst (get_movie_details sv (m_id movie)) = None"
  obtain evs0 where classify: "process_user_query sv query = ((''movie'', refined), evs0)"
    using kind by (cases "process_user_query sv query") auto
  obtain evs1 where search: "search_movie sv refined = (Some movie, evs1)"
    using found by (cases "search_movie sv refined") auto
  obtain evs2 where details: "get_movie_details sv (m_id movie) = (None, evs2)"
    using unavailable by (cases "get_movie_details sv (m_id movie)") auto
  have evs0: "calls_of evs0 = []" "statuses_of evs0 = []" "callbacks_of evs0 = []"
    "requests_of evs0 = [GenerateContent (classification_prompt query)]"
    using process_user_query_events [of sv query] classify by simp_all
  have evs1: "calls_of evs1 = []" "statuses_of evs1 = []" "callbacks_of evs1 = []"
    "requests_of evs1 = [TmdbSearch refined]"
    using search_movie_events [of sv refined] search by simp_all
  have evs2: "calls_of evs2 = []" "statuses_of evs2 = []" "callbacks_of evs2 = []"
    "requests_of evs2 = [TmdbDetails (m_id movie)]"
    using get_movie_details_events [of sv "m_id movie"] details by simp_all
  show ?thesis
    by (simp add: gui_handle_query_def classify gui_search_movie_def search details
        calls_of_append statuses_of_append callbacks_of_append requests_of_append evs0 evs1 evs2)
qed

theorem details_unavailable_is_terminal_witness:
  "fst (gui_handle_query no_details_services initial_gui ''Tell me about Inception'') = Returned \<and>
   calls_of (handle_events no_details_services initial_gui ''Tell me about Inception'') = [] \<and>
   callbacks_of (handle_events no_details_services initial_gui ''Tell me about Inception'') = [] \<and>
   requests_of (handle_events no_details_services initial_gui ''Tell me about Inception'') =
     [GenerateContent (classification_prompt ''Tell me about Inception''),
      TmdbSearch ''inception'', TmdbDetails (m_id inception_summary)] \<and>
   statuses_of (handle_events no_details_services initial_gui ''Tell me about Inception'') =
     [''Searching for movie: '' @ ''inception'',
      ''Found: '' @ m_title inception_summary @ '' - Getting details...'',
      ''Error fetching details for '' @ m_title inception_summary]"
proof -
  have classify:
    "fst (process_user_query no_details_services ''Tell me about Inception'') =
       (''movie'', ''inception'')"
    by (simp add: process_user_query_def no_details_services_def offline_def text_eval)
  have search: "fst (search_movie no_details_services ''inception'') = Some inception_summary"
    by (simp add: search_movie_def no_details_services_def offline_def)
  have details: "fst (get_movie_details no_details_services (m_id inception_summary)) = None"
    by (simp add: get_movie_details_def no_details_services_def offline_def)
  show ?thesis
    by (rule details_unavailable_is_terminal [OF classify search details])
qed

end
